theory Spec2Isabelle
  imports Complex_Main
begin

section \<open>Data model of the tax-impact engine\<close>

text \<open>
  The engine (\<^verbatim>\<open>src/engine/tax_engine.py\<close>) works on Python floats. The embedding uses
  exact arithmetic on \<open>real\<close>: products, differences and quotients are the mathematical
  ones. Infinities, NaN and binary rounding error are therefore outside the model.

  A regime calculator returns a dictionary with the six keys of the template
  \<^verbatim>\<open>zero_tax_result\<close>; it is a record here.
\<close>

record RegimeResult =
  gross_income :: real
  taxable_income :: real
  consolidated_relief :: real
  annual_tax :: real
  monthly_tax :: real
  effective_rate :: real

text \<open>
  The entries \<^verbatim>\<open>"current"\<close> and \<^verbatim>\<open>"proposed"\<close> of the result are the calculator's
  dictionary with one more key, \<^verbatim>\<open>"label"\<close>: a record extension.
\<close>

record LabelledResult = RegimeResult +
  label :: string

record Impact =
  monthly_relief :: real
  annual_relief :: real
  percentage_change :: real

record ImpactResult =
  monthly_income :: real
  annual_income :: real
  current :: LabelledResult
  proposed :: LabelledResult
  impact :: Impact

text \<open>
  Errors are values. \<open>InvalidInputError\<close> and \<open>ConfigurationError\<close> are the two kinds
  the design names; \<open>ZeroDivisionError\<close> is what Python raises on a float division by zero.
\<close>

datatype error = InvalidInputError | ConfigurationError | ZeroDivisionError

section \<open>Python primitives\<close>

text \<open>Float division \<^verbatim>\<open>x / y\<close>: raises on a zero divisor.\<close>

definition py_div :: "real \<Rightarrow> real \<Rightarrow> error + real" where
  "py_div x y = (if y = 0 then Inl ZeroDivisionError else Inr (x / y))"

text \<open>
  \<^verbatim>\<open>round(x, 2)\<close>: the nearest multiple of one hundredth, an exact tie going to the
  even neighbour.
\<close>

definition round_half_even :: "real \<Rightarrow> int" where
  "round_half_even x =
     (let f = \<lfloor>x\<rfloor>; d = x - of_int f
      in if d < 1 / 2 then f
         else if 1 / 2 < d then f + 1
         else if even f then f else f + 1)"

definition round2 :: "real \<Rightarrow> real" where
  "round2 x = of_int (round_half_even (x * 100)) / 100"

section \<open>The impact engine\<close>

text \<open>The dictionary \<^verbatim>\<open>zero_tax_result\<close> built from \<^verbatim>\<open>annual_income\<close> (lines 9 to 16).\<close>

definition zero_tax_result :: "real \<Rightarrow> RegimeResult" where
  "zero_tax_result annual =
     \<lparr>gross_income = annual, taxable_income = 0, consolidated_relief = 0,
      annual_tax = 0, monthly_tax = 0, effective_rate = 0\<rparr>"

text \<open>The dictionary display \<^verbatim>\<open>{"label": l, **r}\<close> (lines 45 to 53).\<close>

definition with_label :: "string \<Rightarrow> RegimeResult \<Rightarrow> LabelledResult" where
  "with_label l r =
     \<lparr>gross_income = gross_income r, taxable_income = taxable_income r,
      consolidated_relief = consolidated_relief r, annual_tax = annual_tax r,
      monthly_tax = monthly_tax r, effective_rate = effective_rate r, label = l\<rparr>"

text \<open>
  The conditional of lines 18 to 38. It yields the five local variables that both
  branches assign: \<^verbatim>\<open>current\<close>, \<^verbatim>\<open>proposed\<close>, \<^verbatim>\<open>annual_relief\<close>, \<^verbatim>\<open>monthly_relief\<close>
  and \<^verbatim>\<open>percentage_change\<close>, none of them rounded. The two regime calculators
  \<^verbatim>\<open>calculate_pita_2024\<close> and \<^verbatim>\<open>calculate_pita_2026\<close> are imported from modules that are
  not part of the sources at hand, so they are parameters, and they may raise.
\<close>

type_synonym calculator = "real \<Rightarrow> error + RegimeResult"

type_synonym locals = "RegimeResult \<times> RegimeResult \<times> real \<times> real \<times> real"

definition impact_locals :: "calculator \<Rightarrow> calculator \<Rightarrow> real \<Rightarrow> error + locals" where
  "impact_locals calculate_pita_2024 calculate_pita_2026 annual =
     (if annual > 800000 then
        (case calculate_pita_2024 annual of
           Inl e \<Rightarrow> Inl e
         | Inr cur \<Rightarrow>
        (case calculate_pita_2026 annual of
           Inl e \<Rightarrow> Inl e
         | Inr prop \<Rightarrow>
        (let relief = annual_tax cur - annual_tax prop in
         case py_div relief 12 of
           Inl e \<Rightarrow> Inl e
         | Inr monthly \<Rightarrow>
        (case (if annual_tax cur > 0
               then (case py_div relief (annual_tax cur) of
                       Inl e \<Rightarrow> Inl e
                     | Inr q \<Rightarrow> Inr (q * 100))
               else Inr 0) of
           Inl e \<Rightarrow> Inl e
         | Inr pct \<Rightarrow> Inr (cur, prop, relief, monthly, pct)))))
      else
        Inr (zero_tax_result annual, zero_tax_result annual, 0, 0, 0))"

text \<open>The single return statement of lines 41 to 60.\<close>

definition assemble :: "real \<Rightarrow> real \<Rightarrow> locals \<Rightarrow> ImpactResult" where
  "assemble monthly annual v =
     (case v of (cur, prop, relief, monthly_rel, pct) \<Rightarrow>
        \<lparr>monthly_income = monthly,
         annual_income = annual,
         current = with_label ''2024 PITA'' cur,
         proposed = with_label ''2026 Reform'' prop,
         impact = \<lparr>monthly_relief = round2 monthly_rel,
                   annual_relief = round2 relief,
                   percentage_change = round2 pct\<rparr>\<rparr>)"

definition calculate_tax_impact :: "calculator \<Rightarrow> calculator \<Rightarrow> real \<Rightarrow> error + ImpactResult" where
  "calculate_tax_impact calculate_pita_2024 calculate_pita_2026 monthly =
     (let annual = monthly * 12
      in case impact_locals calculate_pita_2024 calculate_pita_2026 annual of
           Inl e \<Rightarrow> Inl e
         | Inr v \<Rightarrow> Inr (assemble monthly annual v))"

section \<open>The regime calculator\<close>

text \<open>
  Modelled from the spec: the modules \<^verbatim>\<open>tax_rules_2024\<close> and \<^verbatim>\<open>tax_rules_2026\<close>, which
  define \<^verbatim>\<open>calculate_pita_2024\<close> and \<^verbatim>\<open>calculate_pita_2026\<close>, are missing from the
  sources. The definitions of this section follow the design's description of a regime
  (a relief rule and an ordered bracket table) and of the calculator's four steps.
\<close>

text \<open>
  Modelled from the spec: a tax bracket is an income band with an inclusive lower bound, an
  exclusive upper bound (none for the top band) and a rate.
\<close>

record TaxBracket =
  lower_bound :: real
  upper_bound :: "real option"
  rate :: real

text \<open>
  Modelled from the spec: a relief rule is a floor-or-percentage term plus a flat
  percentage term; the three constants are regime configuration.
\<close>

record ReliefRule =
  floor_amount :: real
  floor_rate :: real
  flat_rate :: real

text \<open>
  Modelled from the spec: a regime is a complete, named pair of a relief rule and a
  bracket table.
\<close>

record Regime =
  relief_rule :: ReliefRule
  brackets :: "TaxBracket list"

text \<open>
  Modelled from the spec: the relief of a gross income, the floor or the percentage,
  whichever is higher, plus the flat percentage.
\<close>

definition relief_amount :: "ReliefRule \<Rightarrow> real \<Rightarrow> real" where
  "relief_amount rr g = max (floor_amount rr) (floor_rate rr * g) + flat_rate rr * g"

text \<open>
  Modelled from the spec: the 2024 rule is
  \<^verbatim>\<open>max(200000, 0.01 * gross_income) + 0.20 * gross_income\<close>.
\<close>

definition relief_rule_2024 :: ReliefRule where
  "relief_rule_2024 = \<lparr>floor_amount = 200000, floor_rate = 1 / 100, flat_rate = 20 / 100\<rparr>"

text \<open>
  Modelled from the spec: the table invariant. Bands are contiguous from the given start,
  strictly increasing, every rate is a fraction, and exactly the last band is unbounded.
\<close>

fun bands_from :: "real \<Rightarrow> TaxBracket list \<Rightarrow> bool" where
  "bands_from lo [] = False"
| "bands_from lo (b # bs) =
     (lower_bound b = lo \<and> 0 \<le> rate b \<and> rate b \<le> 1 \<and>
      (case upper_bound b of
         None \<Rightarrow> bs = []
       | Some u \<Rightarrow> lo < u \<and> bands_from u bs))"

text \<open>Modelled from the spec: a table starts at 0.\<close>

definition table_ok :: "TaxBracket list \<Rightarrow> bool" where
  "table_ok bs = bands_from 0 bs"

text \<open>
  Modelled from the spec: a band wholly or partly below the taxable income taxes the
  slice of that income inside the band at the band's rate; a band above it contributes 0.
\<close>

definition band_tax :: "real \<Rightarrow> TaxBracket \<Rightarrow> real" where
  "band_tax t b =
     (if lower_bound b < t
      then ((case upper_bound b of None \<Rightarrow> t | Some u \<Rightarrow> min t u) - lower_bound b) * rate b
      else 0)"

text \<open>Modelled from the spec: the walk over the ordered table sums the bands' taxes.\<close>

fun bracket_walk :: "TaxBracket list \<Rightarrow> real \<Rightarrow> real" where
  "bracket_walk [] t = 0"
| "bracket_walk (b # bs) t = band_tax t b + bracket_walk bs t"

text \<open>
  Modelled from the spec: the contract \<^verbatim>\<open>compute(gross_income)\<close>. A malformed table is a
  \<open>ConfigurationError\<close> at first use, a negative income an \<open>InvalidInputError\<close>; the
  effective rate of a zero income is 0.
\<close>

definition compute :: "Regime \<Rightarrow> real \<Rightarrow> error + RegimeResult" where
  "compute R g =
     (if \<not> table_ok (brackets R) then Inl ConfigurationError
      else if g < 0 then Inl InvalidInputError
      else
        (let relief = relief_amount (relief_rule R) g;
             taxable = max 0 (g - relief);
             tax = bracket_walk (brackets R) taxable
         in Inr \<lparr>gross_income = g, taxable_income = taxable,
                  consolidated_relief = relief, annual_tax = tax,
                  monthly_tax = tax / 12,
                  effective_rate = (if g > 0 then tax / g else 0)\<rparr>))"

text \<open>
  Modelled from the spec: the constants of a relief rule are an amount and two
  percentages, hence not negative.
\<close>

definition relief_rule_ok :: "ReliefRule \<Rightarrow> bool" where
  "relief_rule_ok rr = (0 \<le> floor_amount rr \<and> 0 \<le> floor_rate rr \<and> 0 \<le> flat_rate rr)"

section \<open>Sample configuration\<close>

text \<open>
  Neither bracket table is part of the sources or of the design. The two regimes below are
  sample data on which the theorems are exercised at concrete inputs; nothing is claimed
  about the tables the repository really ships.
\<close>

definition sample_regime_2024 :: Regime where
  "sample_regime_2024 =
     \<lparr>relief_rule = relief_rule_2024,
      brackets =
        [\<lparr>lower_bound = 0, upper_bound = Some 300000, rate = 7 / 100\<rparr>,
         \<lparr>lower_bound = 300000, upper_bound = Some 600000, rate = 11 / 100\<rparr>,
         \<lparr>lower_bound = 600000, upper_bound = Some 1100000, rate = 15 / 100\<rparr>,
         \<lparr>lower_bound = 1100000, upper_bound = Some 1600000, rate = 19 / 100\<rparr>,
         \<lparr>lower_bound = 1600000, upper_bound = Some 3200000, rate = 21 / 100\<rparr>,
         \<lparr>lower_bound = 3200000, upper_bound = None, rate = 24 / 100\<rparr>]\<rparr>"

definition sample_regime_2026 :: Regime where
  "sample_regime_2026 =
     \<lparr>relief_rule = \<lparr>floor_amount = 0, floor_rate = 0, flat_rate = 0\<rparr>,
      brackets =
        [\<lparr>lower_bound = 0, upper_bound = Some 800000, rate = 0\<rparr>,
         \<lparr>lower_bound = 800000, upper_bound = Some 3000000, rate = 15 / 100\<rparr>,
         \<lparr>lower_bound = 3000000, upper_bound = Some 12000000, rate = 18 / 100\<rparr>,
         \<lparr>lower_bound = 12000000, upper_bound = None, rate = 21 / 100\<rparr>]\<rparr>"

definition sample_pita_2024 :: calculator where
  "sample_pita_2024 = compute sample_regime_2024"

definition sample_pita_2026 :: calculator where
  "sample_pita_2026 = compute sample_regime_2026"

text \<open>A calculator that charges nothing, for the zero-tax case of the taxable branch.\<close>

definition zero_pita :: calculator where
  "zero_pita annual = Inr (zero_tax_result annual)"

section \<open>Reading the result\<close>

text \<open>The six calculator keys of a labelled entry, the label left out.\<close>

definition without_label :: "LabelledResult \<Rightarrow> RegimeResult" where
  "without_label r =
     \<lparr>gross_income = gross_income r, taxable_income = taxable_income r,
      consolidated_relief = consolidated_relief r, annual_tax = annual_tax r,
      monthly_tax = monthly_tax r, effective_rate = effective_rate r\<rparr>"

section \<open>Basic facts\<close>

text \<open>\<open>round2\<close> moves a value by at most half a hundredth, and fixes 0.\<close>

lemma round_half_even_close: "\<bar>of_int (round_half_even x) - x\<bar> \<le> 1 / 2"
proof -
  have "of_int \<lfloor>x\<rfloor> \<le> x" "x < of_int \<lfloor>x\<rfloor> + 1"
    by linarith+
  then show ?thesis
    by (auto simp: round_half_even_def Let_def)
qed

lemma round2_close: "\<bar>round2 x - x\<bar> \<le> 1 / 200"
proof -
  have "\<bar>of_int (round_half_even (x * 100)) - x * 100\<bar> \<le> 1 / 2"
    by (rule round_half_even_close)
  then show ?thesis
    by (simp add: round2_def field_simps abs_le_iff)
qed

lemma round2_zero: "round2 0 = 0"
  by (simp add: round2_def round_half_even_def)

lemma without_label_with_label: "without_label (with_label l r) = r"
  by (simp add: without_label_def with_label_def)

lemma label_with_label: "label (with_label l r) = l"
  by (simp add: with_label_def)

lemma annual_tax_with_label: "annual_tax (with_label l r) = annual_tax r"
  by (simp add: with_label_def)

lemma gross_income_with_label: "gross_income (with_label l r) = gross_income r"
  by (simp add: with_label_def)

text \<open>The two branches of the conditional, and the results they lead to.\<close>

lemma impact_locals_exempt:
  "annual \<le> 800000 \<Longrightarrow>
   impact_locals c24 c26 annual = Inr (zero_tax_result annual, zero_tax_result annual, 0, 0, 0)"
  by (simp add: impact_locals_def)

lemma impact_locals_taxable:
  "800000 < annual \<Longrightarrow> c24 annual = Inr cur \<Longrightarrow> c26 annual = Inr prop \<Longrightarrow>
   impact_locals c24 c26 annual =
     Inr (cur, prop, annual_tax cur - annual_tax prop,
          (annual_tax cur - annual_tax prop) / 12,
          (if annual_tax cur > 0
           then (annual_tax cur - annual_tax prop) / annual_tax cur * 100 else 0))"
  by (simp add: impact_locals_def py_div_def Let_def)

lemma impact_locals_error:
  "impact_locals c24 c26 annual = Inl e \<Longrightarrow>
   800000 < annual \<and> (c24 annual = Inl e \<or> c26 annual = Inl e)"
  by (auto simp: impact_locals_def py_div_def Let_def split: if_splits sum.splits)

lemma exempt_result:
  "m * 12 \<le> 800000 \<Longrightarrow>
   calculate_tax_impact c24 c26 m =
     Inr \<lparr>monthly_income = m, annual_income = m * 12,
          current = with_label ''2024 PITA'' (zero_tax_result (m * 12)),
          proposed = with_label ''2026 Reform'' (zero_tax_result (m * 12)),
          impact = \<lparr>monthly_relief = 0, annual_relief = 0, percentage_change = 0\<rparr>\<rparr>"
  by (simp add: calculate_tax_impact_def Let_def impact_locals_exempt assemble_def round2_zero)

lemma taxable_result:
  "800000 < m * 12 \<Longrightarrow> c24 (m * 12) = Inr cur \<Longrightarrow> c26 (m * 12) = Inr prop \<Longrightarrow>
   calculate_tax_impact c24 c26 m =
     Inr \<lparr>monthly_income = m, annual_income = m * 12,
          current = with_label ''2024 PITA'' cur,
          proposed = with_label ''2026 Reform'' prop,
          impact =
            \<lparr>monthly_relief = round2 ((annual_tax cur - annual_tax prop) / 12),
             annual_relief = round2 (annual_tax cur - annual_tax prop),
             percentage_change =
               round2 (if annual_tax cur > 0
                       then (annual_tax cur - annual_tax prop) / annual_tax cur * 100
                       else 0)\<rparr>\<rparr>"
  by (simp add: calculate_tax_impact_def Let_def impact_locals_taxable assemble_def)

text \<open>The engine raises nothing of its own: an error is an error of a calculator.\<close>

lemma engine_errors_are_calculator_errors:
  "calculate_tax_impact c24 c26 m = Inl e \<Longrightarrow>
   800000 < m * 12 \<and> (c24 (m * 12) = Inl e \<or> c26 (m * 12) = Inl e)"
  by (auto simp: calculate_tax_impact_def Let_def dest: impact_locals_error split: sum.splits)

text \<open>The sample calculators at two incomes of the taxable branch.\<close>

lemma sample_2024_at_6000000:
  "sample_pita_2024 6000000 =
     Inr \<lparr>gross_income = 6000000, taxable_income = 4600000,
          consolidated_relief = 1400000, annual_tax = 896000,
          monthly_tax = 896000 / 12, effective_rate = 896000 / 6000000\<rparr>"
  by (simp add: sample_pita_2024_def compute_def sample_regime_2024_def table_ok_def
      relief_amount_def relief_rule_2024_def band_tax_def)

lemma sample_2026_at_6000000:
  "sample_pita_2026 6000000 =
     Inr \<lparr>gross_income = 6000000, taxable_income = 6000000,
          consolidated_relief = 0, annual_tax = 870000,
          monthly_tax = 870000 / 12, effective_rate = 870000 / 6000000\<rparr>"
  by (simp add: sample_pita_2026_def compute_def sample_regime_2026_def table_ok_def
      relief_amount_def band_tax_def)

lemma sample_2024_at_1200000:
  "sample_pita_2024 1200000 =
     Inr \<lparr>gross_income = 1200000, taxable_income = 760000,
          consolidated_relief = 440000, annual_tax = 78000,
          monthly_tax = 78000 / 12, effective_rate = 78000 / 1200000\<rparr>"
  by (simp add: sample_pita_2024_def compute_def sample_regime_2024_def table_ok_def
      relief_amount_def relief_rule_2024_def band_tax_def)

lemma zero_pita_at: "zero_pita a = Inr (zero_tax_result a)"
  by (simp add: zero_pita_def)

lemma sample_2026_at_1200000:
  "sample_pita_2026 1200000 =
     Inr \<lparr>gross_income = 1200000, taxable_income = 1200000,
          consolidated_relief = 0, annual_tax = 60000,
          monthly_tax = 60000 / 12, effective_rate = 60000 / 1200000\<rparr>"
  by (simp add: sample_pita_2026_def compute_def sample_regime_2026_def table_ok_def
      relief_amount_def band_tax_def)

section \<open>Claims about the impact engine\<close>

text \<open>
  C1. The claim: every negative or non-finite \<^verbatim>\<open>monthly_income\<close> makes
  \<^verbatim>\<open>calculate_tax_impact\<close> raise \<open>InvalidInputError\<close>. The function has no input check:
  at \<open>- 100\<close> the annual income is \<open>- 1200\<close>, the test \<^verbatim>\<open>annual_income > 800000\<close> fails,
  and the exemption branch returns a result whose gross income is negative.
\<close>

theorem negative_income_counterexample:
  "calculate_tax_impact sample_pita_2024 sample_pita_2026 (- 100) =
     Inr \<lparr>monthly_income = - 100, annual_income = - 1200,
          current = \<lparr>gross_income = - 1200, taxable_income = 0, consolidated_relief = 0,
                     annual_tax = 0, monthly_tax = 0, effective_rate = 0,
                     label = ''2024 PITA''\<rparr>,
          proposed = \<lparr>gross_income = - 1200, taxable_income = 0, consolidated_relief = 0,
                      annual_tax = 0, monthly_tax = 0, effective_rate = 0,
                      label = ''2026 Reform''\<rparr>,
          impact = \<lparr>monthly_relief = 0, annual_relief = 0, percentage_change = 0\<rparr>\<rparr>
   \<and> calculate_tax_impact sample_pita_2024 sample_pita_2026 (- 100) \<noteq> Inl InvalidInputError"
  by (simp add: exempt_result with_label_def zero_tax_result_def)

text \<open>
  C1, as the code has it: a negative \<^verbatim>\<open>monthly_income\<close> is accepted. Whatever the two
  calculators are, the call returns the exemption result for \<open>annual_income = m * 12\<close>.
\<close>

theorem negative_income_accepted:
  assumes "m < 0"
  shows "calculate_tax_impact c24 c26 m =
     Inr \<lparr>monthly_income = m, annual_income = m * 12,
          current = with_label ''2024 PITA'' (zero_tax_result (m * 12)),
          proposed = with_label ''2026 Reform'' (zero_tax_result (m * 12)),
          impact = \<lparr>monthly_relief = 0, annual_relief = 0, percentage_change = 0\<rparr>\<rparr>"
  using assms by (intro exempt_result) simp

theorem negative_income_accepted_witness:
  "(- 100 :: real) < 0 \<and>
   calculate_tax_impact sample_pita_2024 sample_pita_2026 (- 100) =
     Inr \<lparr>monthly_income = - 100, annual_income = - 1200,
          current = with_label ''2024 PITA'' (zero_tax_result (- 1200)),
          proposed = with_label ''2026 Reform'' (zero_tax_result (- 1200)),
          impact = \<lparr>monthly_relief = 0, annual_relief = 0, percentage_change = 0\<rparr>\<rparr>"
  using negative_income_accepted [of "- 100" sample_pita_2024 sample_pita_2026] by simp

text \<open>
  C2. When \<open>annual_income = m * 12\<close> is at most 800000 the call returns a result whose
  annual relief is 0 and whose \<^verbatim>\<open>current\<close> and \<^verbatim>\<open>proposed\<close> are equal as RegimeResults,
  that is on the six calculator keys: both are the zero template with
  \<open>gross_income = annual_income\<close>. When it is above 800000 and both calculators return,
  \<^verbatim>\<open>current\<close> is the result of the 2024 calculator and \<^verbatim>\<open>proposed\<close> that of the 2026
  calculator at \<open>annual_income\<close>, and the annual relief is the difference of their annual
  taxes rounded to two places.
\<close>

theorem branch_convergence:
  "(m * 12 \<le> 800000 \<longrightarrow>
      (\<exists>r. calculate_tax_impact c24 c26 m = Inr r \<and>
           annual_relief (impact r) = 0 \<and>
           without_label (current r) = zero_tax_result (m * 12) \<and>
           without_label (proposed r) = zero_tax_result (m * 12) \<and>
           without_label (current r) = without_label (proposed r)))
   \<and> (800000 < m * 12 \<longrightarrow> c24 (m * 12) = Inr cur \<longrightarrow> c26 (m * 12) = Inr prop \<longrightarrow>
      (\<exists>r. calculate_tax_impact c24 c26 m = Inr r \<and>
           without_label (current r) = cur \<and>
           without_label (proposed r) = prop \<and>
           annual_relief (impact r) =
             round2 (annual_tax (current r) - annual_tax (proposed r))))"
proof (intro conjI impI)
  assume "m * 12 \<le> 800000"
  from exempt_result [OF this, of c24 c26]
  show "\<exists>r. calculate_tax_impact c24 c26 m = Inr r \<and>
           annual_relief (impact r) = 0 \<and>
           without_label (current r) = zero_tax_result (m * 12) \<and>
           without_label (proposed r) = zero_tax_result (m * 12) \<and>
           without_label (current r) = without_label (proposed r)"
    by (simp add: without_label_with_label label_with_label)
next
  assume "800000 < m * 12" "c24 (m * 12) = Inr cur" "c26 (m * 12) = Inr prop"
  then have "calculate_tax_impact c24 c26 m =
     Inr \<lparr>monthly_income = m, annual_income = m * 12,
          current = with_label ''2024 PITA'' cur,
          proposed = with_label ''2026 Reform'' prop,
          impact =
            \<lparr>monthly_relief = round2 ((annual_tax cur - annual_tax prop) / 12),
             annual_relief = round2 (annual_tax cur - annual_tax prop),
             percentage_change =
               round2 (if annual_tax cur > 0
                       then (annual_tax cur - annual_tax prop) / annual_tax cur * 100
                       else 0)\<rparr>\<rparr>"
    by (rule taxable_result)
  then show "\<exists>r. calculate_tax_impact c24 c26 m = Inr r \<and>
           without_label (current r) = cur \<and>
           without_label (proposed r) = prop \<and>
           annual_relief (impact r) =
             round2 (annual_tax (current r) - annual_tax (proposed r))"
    by (simp add: without_label_with_label annual_tax_with_label)
qed

theorem branch_convergence_witness:
  "((50000 :: real) * 12 \<le> 800000 \<and>
      (\<exists>r. calculate_tax_impact sample_pita_2024 sample_pita_2026 50000 = Inr r \<and>
           annual_relief (impact r) = 0 \<and>
           without_label (current r) = zero_tax_result 600000 \<and>
           without_label (proposed r) = zero_tax_result 600000 \<and>
           without_label (current r) = without_label (proposed r)))
   \<and> ((800000 :: real) < 500000 * 12 \<and>
      (\<exists>r. calculate_tax_impact sample_pita_2024 sample_pita_2026 500000 = Inr r \<and>
           annual_tax (current r) = 896000 \<and>
           annual_tax (proposed r) = 870000 \<and>
           annual_relief (impact r) = 26000))"
proof -
  let ?cur = "\<lparr>gross_income = 6000000, taxable_income = 4600000,
          consolidated_relief = 1400000, annual_tax = 896000,
          monthly_tax = 896000 / 12, effective_rate = 896000 / 6000000\<rparr>"
  let ?reform = "\<lparr>gross_income = 6000000, taxable_income = 6000000,
          consolidated_relief = 0, annual_tax = 870000,
          monthly_tax = 870000 / 12, effective_rate = 870000 / 6000000\<rparr>"
  have r: "round2 26000 = 26000"
    by (simp add: round2_def round_half_even_def)
  have p1: "\<exists>r. calculate_tax_impact sample_pita_2024 sample_pita_2026 50000 = Inr r \<and>
           annual_relief (impact r) = 0 \<and>
           without_label (current r) = zero_tax_result 600000 \<and>
           without_label (proposed r) = zero_tax_result 600000 \<and>
           without_label (current r) = without_label (proposed r)"
    using branch_convergence [of 50000 sample_pita_2024 sample_pita_2026] by simp
  have "\<exists>r. calculate_tax_impact sample_pita_2024 sample_pita_2026 500000 = Inr r \<and>
           without_label (current r) = ?cur \<and>
           without_label (proposed r) = ?reform \<and>
           annual_relief (impact r) =
             round2 (annual_tax (current r) - annual_tax (proposed r))"
    using branch_convergence [of 500000 sample_pita_2024 sample_pita_2026 ?cur ?reform]
      sample_2024_at_6000000 sample_2026_at_6000000
    by simp
  then obtain r where
    "calculate_tax_impact sample_pita_2024 sample_pita_2026 500000 = Inr r"
    "without_label (current r) = ?cur"
    "without_label (proposed r) = ?reform"
    "annual_relief (impact r) = round2 (annual_tax (current r) - annual_tax (proposed r))"
    by blast
  then have p2: "\<exists>r. calculate_tax_impact sample_pita_2024 sample_pita_2026 500000 = Inr r \<and>
           annual_tax (current r) = 896000 \<and>
           annual_tax (proposed r) = 870000 \<and>
           annual_relief (impact r) = 26000"
    using r by (auto simp: without_label_def)
  from p1 p2 show ?thesis by simp
qed

text \<open>
  C3. The threshold test is inclusive. Whenever \<open>annual_income = m * 12\<close> is at most
  800000, and so also when it is exactly 800000, the call returns the exemption result:
  both entries are the zero template with \<open>gross_income = annual_income\<close> and every other
  amount 0, and the three impact figures are 0. The result is the same for any two pairs
  of calculators, failing ones included: neither calculator is consulted.
\<close>

theorem exemption_threshold_inclusive:
  assumes "m * 12 \<le> 800000"
  shows "calculate_tax_impact c24 c26 m =
           Inr \<lparr>monthly_income = m, annual_income = m * 12,
                current = \<lparr>gross_income = m * 12, taxable_income = 0,
                           consolidated_relief = 0, annual_tax = 0, monthly_tax = 0,
                           effective_rate = 0, label = ''2024 PITA''\<rparr>,
                proposed = \<lparr>gross_income = m * 12, taxable_income = 0,
                            consolidated_relief = 0, annual_tax = 0, monthly_tax = 0,
                            effective_rate = 0, label = ''2026 Reform''\<rparr>,
                impact = \<lparr>monthly_relief = 0, annual_relief = 0,
                          percentage_change = 0\<rparr>\<rparr>
         \<and> calculate_tax_impact c24 c26 m = calculate_tax_impact c24' c26' m"
proof -
  have "calculate_tax_impact f g m =
     Inr \<lparr>monthly_income = m, annual_income = m * 12,
          current = with_label ''2024 PITA'' (zero_tax_result (m * 12)),
          proposed = with_label ''2026 Reform'' (zero_tax_result (m * 12)),
          impact = \<lparr>monthly_relief = 0, annual_relief = 0, percentage_change = 0\<rparr>\<rparr>"
    for f g
    using assms by (rule exempt_result)
  then show ?thesis
    by (simp add: with_label_def zero_tax_result_def)
qed

theorem exemption_threshold_inclusive_witness:
  "(200000 / 3 :: real) * 12 \<le> 800000 \<and>
   calculate_tax_impact sample_pita_2024 sample_pita_2026 (200000 / 3) =
     Inr \<lparr>monthly_income = 200000 / 3, annual_income = 800000,
          current = \<lparr>gross_income = 800000, taxable_income = 0,
                     consolidated_relief = 0, annual_tax = 0, monthly_tax = 0,
                     effective_rate = 0, label = ''2024 PITA''\<rparr>,
          proposed = \<lparr>gross_income = 800000, taxable_income = 0,
                      consolidated_relief = 0, annual_tax = 0, monthly_tax = 0,
                      effective_rate = 0, label = ''2026 Reform''\<rparr>,
          impact = \<lparr>monthly_relief = 0, annual_relief = 0, percentage_change = 0\<rparr>\<rparr> \<and>
   calculate_tax_impact sample_pita_2024 sample_pita_2026 (200000 / 3) =
     calculate_tax_impact zero_pita zero_pita (200000 / 3)"
  using exemption_threshold_inclusive
    [of "200000 / 3" sample_pita_2024 sample_pita_2026 zero_pita zero_pita]
  by auto

text \<open>
  C4. \<open>annual_income = monthly_income * 12\<close> is computed ahead of the conditional, and
  the returned record carries it on both branches: on the exemption branch, where it is
  also the gross income of both entries, and on the taxable branch whenever the two
  calculators return.
\<close>

theorem annual_income_in_both_branches:
  "(m * 12 \<le> 800000 \<longrightarrow>
      (\<exists>r. calculate_tax_impact c24 c26 m = Inr r \<and>
           monthly_income r = m \<and>
           annual_income r = m * 12 \<and>
           gross_income (current r) = m * 12 \<and>
           gross_income (proposed r) = m * 12))
   \<and> (800000 < m * 12 \<longrightarrow> c24 (m * 12) = Inr cur \<longrightarrow> c26 (m * 12) = Inr prop \<longrightarrow>
      (\<exists>r. calculate_tax_impact c24 c26 m = Inr r \<and>
           monthly_income r = m \<and>
           annual_income r = m * 12))"
proof (intro conjI impI)
  assume "m * 12 \<le> 800000"
  then show "\<exists>r. calculate_tax_impact c24 c26 m = Inr r \<and>
           monthly_income r = m \<and>
           annual_income r = m * 12 \<and>
           gross_income (current r) = m * 12 \<and>
           gross_income (proposed r) = m * 12"
    by (simp add: exempt_result gross_income_with_label zero_tax_result_def)
next
  assume "800000 < m * 12" "c24 (m * 12) = Inr cur" "c26 (m * 12) = Inr prop"
  then show "\<exists>r. calculate_tax_impact c24 c26 m = Inr r \<and>
           monthly_income r = m \<and> annual_income r = m * 12"
    by (simp add: taxable_result)
qed

theorem annual_income_in_both_branches_witness:
  "((50000 :: real) * 12 \<le> 800000 \<and>
      (\<exists>r. calculate_tax_impact sample_pita_2024 sample_pita_2026 50000 = Inr r \<and>
           monthly_income r = 50000 \<and>
           annual_income r = 600000 \<and>
           gross_income (current r) = 600000 \<and>
           gross_income (proposed r) = 600000))
   \<and> ((800000 :: real) < 500000 * 12 \<and>
      (\<exists>r. calculate_tax_impact sample_pita_2024 sample_pita_2026 500000 = Inr r \<and>
           monthly_income r = 500000 \<and>
           annual_income r = 6000000))"
proof -
  let ?cur = "\<lparr>gross_income = 6000000, taxable_income = 4600000,
          consolidated_relief = 1400000, annual_tax = 896000,
          monthly_tax = 896000 / 12, effective_rate = 896000 / 6000000\<rparr>"
  let ?reform = "\<lparr>gross_income = 6000000, taxable_income = 6000000,
          consolidated_relief = 0, annual_tax = 870000,
          monthly_tax = 870000 / 12, effective_rate = 870000 / 6000000\<rparr>"
  have low: "\<exists>r. calculate_tax_impact sample_pita_2024 sample_pita_2026 50000 = Inr r \<and>
           monthly_income r = 50000 \<and>
           annual_income r = 600000 \<and>
           gross_income (current r) = 600000 \<and>
           gross_income (proposed r) = 600000"
    using annual_income_in_both_branches
      [of 50000 sample_pita_2024 sample_pita_2026 ?cur ?reform]
    by simp
  have high: "\<exists>r. calculate_tax_impact sample_pita_2024 sample_pita_2026 500000 = Inr r \<and>
           monthly_income r = 500000 \<and>
           annual_income r = 6000000"
    using annual_income_in_both_branches
      [of 500000 sample_pita_2024 sample_pita_2026 ?cur ?reform]
      sample_2024_at_6000000 sample_2026_at_6000000
    by simp
  from low high show ?thesis by simp
qed

text \<open>
  C5. On the taxable branch, once both calculators have returned, the local
  \<^verbatim>\<open>percentage_change\<close> is \<open>annual_relief / current.annual_tax * 100\<close> when the current
  annual tax is positive and 0 when it is zero (or negative); the call returns a result
  whose \<^verbatim>\<open>percentage_change\<close> is that value rounded. The division is never reached with
  a zero divisor, so no \<open>ZeroDivisionError\<close> arises.
\<close>

theorem percentage_change_guarded:
  assumes "800000 < m * 12"
    and "c24 (m * 12) = Inr cur"
    and "c26 (m * 12) = Inr prop"
  shows "\<exists>pct r.
           impact_locals c24 c26 (m * 12) =
             Inr (cur, prop, annual_tax cur - annual_tax prop,
                  (annual_tax cur - annual_tax prop) / 12, pct) \<and>
           (0 < annual_tax cur \<longrightarrow>
              pct = (annual_tax cur - annual_tax prop) / annual_tax cur * 100) \<and>
           (annual_tax cur \<le> 0 \<longrightarrow> pct = 0) \<and>
           calculate_tax_impact c24 c26 m = Inr r \<and>
           percentage_change (impact r) = round2 pct"
proof -
  let ?relief = "annual_tax cur - annual_tax prop"
  let ?pct = "if annual_tax cur > 0 then ?relief / annual_tax cur * 100 else 0"
  let ?r = "\<lparr>monthly_income = m, annual_income = m * 12,
               current = with_label ''2024 PITA'' cur,
               proposed = with_label ''2026 Reform'' prop,
               impact =
                 \<lparr>monthly_relief = round2 (?relief / 12),
                  annual_relief = round2 ?relief,
                  percentage_change = round2 ?pct\<rparr>\<rparr>"
  have l: "impact_locals c24 c26 (m * 12) = Inr (cur, prop, ?relief, ?relief / 12, ?pct)"
    using assms by (rule impact_locals_taxable)
  have c: "calculate_tax_impact c24 c26 m = Inr ?r"
    using assms by (rule taxable_result)
  show ?thesis
    by (rule exI [of _ ?pct], rule exI [of _ ?r]) (simp add: l c)
qed

theorem percentage_change_guarded_witness:
  "((800000 :: real) < 500000 * 12 \<and>
      (\<exists>r. calculate_tax_impact sample_pita_2024 sample_pita_2026 500000 = Inr r \<and>
           percentage_change (impact r) = round2 (26000 / 896000 * 100) \<and>
           percentage_change (impact r) = 29 / 10))
   \<and> ((800000 :: real) < 100000 * 12 \<and>
      (\<exists>r. calculate_tax_impact zero_pita sample_pita_2026 100000 = Inr r \<and>
           percentage_change (impact r) = 0))"
proof -
  let ?cur = "\<lparr>gross_income = 6000000, taxable_income = 4600000,
          consolidated_relief = 1400000, annual_tax = 896000,
          monthly_tax = 896000 / 12, effective_rate = 896000 / 6000000\<rparr>"
  let ?reform = "\<lparr>gross_income = 6000000, taxable_income = 6000000,
          consolidated_relief = 0, annual_tax = 870000,
          monthly_tax = 870000 / 12, effective_rate = 870000 / 6000000\<rparr>"
  let ?reform' = "\<lparr>gross_income = 1200000, taxable_income = 1200000,
          consolidated_relief = 0, annual_tax = 60000,
          monthly_tax = 60000 / 12, effective_rate = 60000 / 1200000\<rparr>"
  have v: "round2 (26000 / 896000 * 100) = 29 / 10"
    by (simp add: round2_def round_half_even_def)
  have "(800000 :: real) < 500000 * 12"
    "sample_pita_2024 (500000 * 12) = Inr ?cur" "sample_pita_2026 (500000 * 12) = Inr ?reform"
    using sample_2024_at_6000000 sample_2026_at_6000000 by simp_all
  from percentage_change_guarded
    [of 500000 sample_pita_2024 ?cur sample_pita_2026 ?reform, OF this]
  obtain pct r where
    h: "0 < annual_tax ?cur \<longrightarrow> pct = (annual_tax ?cur - annual_tax ?reform) / annual_tax ?cur * 100"
    and c: "calculate_tax_impact sample_pita_2024 sample_pita_2026 500000 = Inr r"
    and p: "percentage_change (impact r) = round2 pct"
    by blast
  have pe: "pct = 26000 / 896000 * 100"
    using h by simp
  from c p [unfolded pe] have positive:
    "\<exists>r. calculate_tax_impact sample_pita_2024 sample_pita_2026 500000 = Inr r \<and>
           percentage_change (impact r) = round2 (26000 / 896000 * 100)"
    by blast
  have "(800000 :: real) < 100000 * 12"
    "zero_pita (100000 * 12) = Inr (zero_tax_result 1200000)"
    "sample_pita_2026 (100000 * 12) = Inr ?reform'"
    using sample_2026_at_1200000 zero_pita_at [of 1200000] by simp_all
  from percentage_change_guarded
    [of 100000 zero_pita "zero_tax_result 1200000" sample_pita_2026 ?reform', OF this]
  obtain pct' r' where
    "annual_tax (zero_tax_result 1200000) \<le> 0 \<longrightarrow> pct' = 0"
    "calculate_tax_impact zero_pita sample_pita_2026 100000 = Inr r'"
    "percentage_change (impact r') = round2 pct'"
    by blast
  then have zero: "\<exists>r. calculate_tax_impact zero_pita sample_pita_2026 100000 = Inr r \<and>
           percentage_change (impact r) = 0"
    by (simp add: zero_tax_result_def round2_zero)
  from positive zero v show ?thesis by auto
qed

text \<open>
  C6. The three impact figures are rounded in the return statement and nowhere else. On
  either branch the locals of the conditional hold the unrounded values: the annual
  relief, its twelfth, and a percentage whose numerator is the unrounded annual relief.
  The returned \<^verbatim>\<open>impact\<close> holds \<^verbatim>\<open>round(_, 2)\<close> of each of them, so each figure is a whole
  number of hundredths.
\<close>

theorem impact_rounded_on_return_only:
  "(m * 12 \<le> 800000 \<longrightarrow>
      (\<exists>r. calculate_tax_impact c24 c26 m = Inr r \<and>
           impact_locals c24 c26 (m * 12) =
             Inr (zero_tax_result (m * 12), zero_tax_result (m * 12), 0, 0, 0) \<and>
           impact r = \<lparr>monthly_relief = round2 0, annual_relief = round2 0,
                       percentage_change = round2 0\<rparr>))
   \<and> (800000 < m * 12 \<longrightarrow> c24 (m * 12) = Inr cur \<longrightarrow> c26 (m * 12) = Inr prop \<longrightarrow>
      (\<exists>r. calculate_tax_impact c24 c26 m = Inr r \<and>
           impact_locals c24 c26 (m * 12) =
             Inr (cur, prop, annual_tax cur - annual_tax prop,
                  (annual_tax cur - annual_tax prop) / 12,
                  (if 0 < annual_tax cur
                   then (annual_tax cur - annual_tax prop) / annual_tax cur * 100
                   else 0)) \<and>
           impact r =
             \<lparr>monthly_relief = round2 ((annual_tax cur - annual_tax prop) / 12),
              annual_relief = round2 (annual_tax cur - annual_tax prop),
              percentage_change =
                round2 (if 0 < annual_tax cur
                        then (annual_tax cur - annual_tax prop) / annual_tax cur * 100
                        else 0)\<rparr> \<and>
           (\<exists>i j k :: int.
              impact r = \<lparr>monthly_relief = of_int i / 100, annual_relief = of_int j / 100,
                          percentage_change = of_int k / 100\<rparr>)))"
proof (intro conjI impI)
  assume "m * 12 \<le> 800000"
  then show "\<exists>r. calculate_tax_impact c24 c26 m = Inr r \<and>
           impact_locals c24 c26 (m * 12) =
             Inr (zero_tax_result (m * 12), zero_tax_result (m * 12), 0, 0, 0) \<and>
           impact r = \<lparr>monthly_relief = round2 0, annual_relief = round2 0,
                       percentage_change = round2 0\<rparr>"
    by (simp add: exempt_result impact_locals_exempt round2_zero)
next
  let ?relief = "annual_tax cur - annual_tax prop"
  let ?pct = "if 0 < annual_tax cur then ?relief / annual_tax cur * 100 else 0"
  let ?impact = "\<lparr>monthly_relief = round2 (?relief / 12), annual_relief = round2 ?relief,
                   percentage_change = round2 ?pct\<rparr>"
  let ?r = "\<lparr>monthly_income = m, annual_income = m * 12,
             current = with_label ''2024 PITA'' cur,
             proposed = with_label ''2026 Reform'' prop,
             impact = ?impact\<rparr>"
  assume h: "800000 < m * 12" "c24 (m * 12) = Inr cur" "c26 (m * 12) = Inr prop"
  then have c: "calculate_tax_impact c24 c26 m = Inr ?r"
    by (rule taxable_result)
  have l: "impact_locals c24 c26 (m * 12) = Inr (cur, prop, ?relief, ?relief / 12, ?pct)"
    using h by (rule impact_locals_taxable)
  have "?impact = \<lparr>monthly_relief = of_int (round_half_even (?relief / 12 * 100)) / 100,
                    annual_relief = of_int (round_half_even (?relief * 100)) / 100,
                    percentage_change = of_int (round_half_even (?pct * 100)) / 100\<rparr>"
    by (simp only: round2_def)
  then have d: "\<exists>i j k :: int.
              ?impact = \<lparr>monthly_relief = of_int i / 100, annual_relief = of_int j / 100,
                          percentage_change = of_int k / 100\<rparr>"
    by blast
  show "\<exists>r. calculate_tax_impact c24 c26 m = Inr r \<and>
           impact_locals c24 c26 (m * 12) =
             Inr (cur, prop, ?relief, ?relief / 12, ?pct) \<and>
           impact r = ?impact \<and>
           (\<exists>i j k :: int.
              impact r = \<lparr>monthly_relief = of_int i / 100, annual_relief = of_int j / 100,
                          percentage_change = of_int k / 100\<rparr>)"
    using c l d by (intro exI [of _ ?r]) simp
qed

theorem impact_rounded_on_return_only_witness:
  "((50000 :: real) * 12 \<le> 800000 \<and>
      (\<exists>r. calculate_tax_impact sample_pita_2024 sample_pita_2026 50000 = Inr r \<and>
           impact r = \<lparr>monthly_relief = 0, annual_relief = 0, percentage_change = 0\<rparr>))
   \<and> ((800000 :: real) < 500000 * 12 \<and>
      (\<exists>r. calculate_tax_impact sample_pita_2024 sample_pita_2026 500000 = Inr r \<and>
           impact_locals sample_pita_2024 sample_pita_2026 6000000 =
             Inr (\<lparr>gross_income = 6000000, taxable_income = 4600000,
                   consolidated_relief = 1400000, annual_tax = 896000,
                   monthly_tax = 896000 / 12, effective_rate = 896000 / 6000000\<rparr>,
                  \<lparr>gross_income = 6000000, taxable_income = 6000000,
                   consolidated_relief = 0, annual_tax = 870000,
                   monthly_tax = 870000 / 12, effective_rate = 870000 / 6000000\<rparr>,
                  26000, 26000 / 12, 26000 / 896000 * 100) \<and>
           impact r = \<lparr>monthly_relief = 216667 / 100, annual_relief = 26000,
                       percentage_change = 290 / 100\<rparr>))"
proof -
  let ?cur = "\<lparr>gross_income = 6000000, taxable_income = 4600000,
          consolidated_relief = 1400000, annual_tax = 896000,
          monthly_tax = 896000 / 12, effective_rate = 896000 / 6000000\<rparr>"
  let ?reform = "\<lparr>gross_income = 6000000, taxable_income = 6000000,
          consolidated_relief = 0, annual_tax = 870000,
          monthly_tax = 870000 / 12, effective_rate = 870000 / 6000000\<rparr>"
  have v: "round2 (26000 / 12) = 216667 / 100" "round2 26000 = 26000"
    "round2 (26000 / 896000 * 100) = 290 / 100"
    by (simp_all add: round2_def round_half_even_def)
  have low: "\<exists>r. calculate_tax_impact sample_pita_2024 sample_pita_2026 50000 = Inr r \<and>
           impact r = \<lparr>monthly_relief = 0, annual_relief = 0, percentage_change = 0\<rparr>"
    using impact_rounded_on_return_only
      [of 50000 sample_pita_2024 sample_pita_2026 ?cur ?reform]
    by (auto simp: round2_zero)
  have "(800000 :: real) < 500000 * 12"
    "sample_pita_2024 (500000 * 12) = Inr ?cur" "sample_pita_2026 (500000 * 12) = Inr ?reform"
    using sample_2024_at_6000000 sample_2026_at_6000000 by simp_all
  from impact_rounded_on_return_only
    [of 500000 sample_pita_2024 sample_pita_2026 ?cur ?reform, THEN conjunct2, rule_format,
      OF this]
  obtain r where
    c: "calculate_tax_impact sample_pita_2024 sample_pita_2026 500000 = Inr r"
    and l: "impact_locals sample_pita_2024 sample_pita_2026 (500000 * 12) =
             Inr (?cur, ?reform, annual_tax ?cur - annual_tax ?reform,
                  (annual_tax ?cur - annual_tax ?reform) / 12,
                  (if 0 < annual_tax ?cur
                   then (annual_tax ?cur - annual_tax ?reform) / annual_tax ?cur * 100
                   else 0))"
    and i: "impact r =
             \<lparr>monthly_relief = round2 ((annual_tax ?cur - annual_tax ?reform) / 12),
              annual_relief = round2 (annual_tax ?cur - annual_tax ?reform),
              percentage_change =
                round2 (if 0 < annual_tax ?cur
                        then (annual_tax ?cur - annual_tax ?reform) / annual_tax ?cur * 100
                        else 0)\<rparr>"
    by blast
  have l': "impact_locals sample_pita_2024 sample_pita_2026 6000000 =
             Inr (?cur, ?reform, 26000, 26000 / 12, 26000 / 896000 * 100)"
    using l by simp
  have e: "round2 ((annual_tax ?cur - annual_tax ?reform) / 12) = 216667 / 100"
    "round2 (annual_tax ?cur - annual_tax ?reform) = 26000"
    "round2 (if 0 < annual_tax ?cur
             then (annual_tax ?cur - annual_tax ?reform) / annual_tax ?cur * 100
             else 0) = 290 / 100"
    using v by simp_all
  have i': "impact r = \<lparr>monthly_relief = 216667 / 100, annual_relief = 26000,
                       percentage_change = 290 / 100\<rparr>"
    using i unfolding e .
  from c l' i' have high:
    "\<exists>r. calculate_tax_impact sample_pita_2024 sample_pita_2026 500000 = Inr r \<and>
         impact_locals sample_pita_2024 sample_pita_2026 6000000 =
           Inr (?cur, ?reform, 26000, 26000 / 12, 26000 / 896000 * 100) \<and>
         impact r = \<lparr>monthly_relief = 216667 / 100, annual_relief = 26000,
                     percentage_change = 290 / 100\<rparr>"
    by blast
  have "(50000 :: real) * 12 \<le> 800000" "(800000 :: real) < 500000 * 12"
    by simp_all
  with low high show ?thesis by blast
qed

text \<open>
  C9. On the exemption branch, and on the taxable branch whenever both calculators return
  a dictionary of the six calculator keys, the call returns a record with all of
  \<^verbatim>\<open>monthly_income\<close>, \<^verbatim>\<open>annual_income\<close>, \<^verbatim>\<open>current\<close>, \<^verbatim>\<open>proposed\<close> and \<^verbatim>\<open>impact\<close>, where
  \<^verbatim>\<open>current\<close> is labelled \<^verbatim>\<open>"2024 PITA"\<close> and \<^verbatim>\<open>proposed\<close> is labelled \<^verbatim>\<open>"2026 Reform"\<close>.
\<close>

theorem labels_on_both_branches:
  "(m * 12 \<le> 800000 \<longrightarrow>
      (\<exists>r. calculate_tax_impact c24 c26 m = Inr r \<and>
           label (current r) = ''2024 PITA'' \<and>
           label (proposed r) = ''2026 Reform''))
   \<and> (800000 < m * 12 \<longrightarrow> c24 (m * 12) = Inr cur \<longrightarrow> c26 (m * 12) = Inr prop \<longrightarrow>
      (\<exists>r. calculate_tax_impact c24 c26 m = Inr r \<and>
           label (current r) = ''2024 PITA'' \<and>
           label (proposed r) = ''2026 Reform'' \<and>
           without_label (current r) = cur \<and>
           without_label (proposed r) = prop))"
proof (intro conjI impI)
  assume "m * 12 \<le> 800000"
  then show "\<exists>r. calculate_tax_impact c24 c26 m = Inr r \<and>
           label (current r) = ''2024 PITA'' \<and>
           label (proposed r) = ''2026 Reform''"
    by (simp add: exempt_result label_with_label)
next
  assume "800000 < m * 12" "c24 (m * 12) = Inr cur" "c26 (m * 12) = Inr prop"
  then show "\<exists>r. calculate_tax_impact c24 c26 m = Inr r \<and>
           label (current r) = ''2024 PITA'' \<and>
           label (proposed r) = ''2026 Reform'' \<and>
           without_label (current r) = cur \<and>
           without_label (proposed r) = prop"
    by (simp add: taxable_result label_with_label without_label_with_label)
qed

theorem labels_on_both_branches_witness:
  "((50000 :: real) * 12 \<le> 800000 \<and>
      (\<exists>r. calculate_tax_impact sample_pita_2024 sample_pita_2026 50000 = Inr r \<and>
           label (current r) = ''2024 PITA'' \<and>
           label (proposed r) = ''2026 Reform''))
   \<and> ((800000 :: real) < 500000 * 12 \<and>
      (\<exists>r. calculate_tax_impact sample_pita_2024 sample_pita_2026 500000 = Inr r \<and>
           label (current r) = ''2024 PITA'' \<and>
           label (proposed r) = ''2026 Reform''))"
proof -
  let ?cur = "\<lparr>gross_income = 6000000, taxable_income = 4600000,
          consolidated_relief = 1400000, annual_tax = 896000,
          monthly_tax = 896000 / 12, effective_rate = 896000 / 6000000\<rparr>"
  let ?reform = "\<lparr>gross_income = 6000000, taxable_income = 6000000,
          consolidated_relief = 0, annual_tax = 870000,
          monthly_tax = 870000 / 12, effective_rate = 870000 / 6000000\<rparr>"
  have low: "\<exists>r. calculate_tax_impact sample_pita_2024 sample_pita_2026 50000 = Inr r \<and>
           label (current r) = ''2024 PITA'' \<and>
           label (proposed r) = ''2026 Reform''"
    using labels_on_both_branches [of 50000 sample_pita_2024 sample_pita_2026 ?cur ?reform]
    by simp
  have high: "\<exists>r. calculate_tax_impact sample_pita_2024 sample_pita_2026 500000 = Inr r \<and>
           label (current r) = ''2024 PITA'' \<and>
           label (proposed r) = ''2026 Reform''"
    using labels_on_both_branches [of 500000 sample_pita_2024 sample_pita_2026 ?cur ?reform]
      sample_2024_at_6000000 sample_2026_at_6000000
    by auto
  from low high show ?thesis by simp
qed

text \<open>
  C10. On the taxable branch \<^verbatim>\<open>impact.monthly_relief\<close> is the unrounded annual difference
  divided by 12 and then rounded. It is not derived from the rounded annual relief: there
  are runs where twelve times the monthly relief differs from the annual relief, and runs
  where the monthly relief differs from the rounded twelfth of the annual relief.
\<close>

theorem monthly_relief_from_unrounded_difference:
  "(800000 < m * 12 \<longrightarrow> c24 (m * 12) = Inr cur \<longrightarrow> c26 (m * 12) = Inr prop \<longrightarrow>
      (\<exists>r. calculate_tax_impact c24 c26 m = Inr r \<and>
           monthly_relief (impact r) = round2 ((annual_tax cur - annual_tax prop) / 12) \<and>
           annual_relief (impact r) = round2 (annual_tax cur - annual_tax prop)))
   \<and> (\<exists>f g x r. 800000 < x * 12 \<and> calculate_tax_impact f g x = Inr r \<and>
           12 * monthly_relief (impact r) \<noteq> annual_relief (impact r))
   \<and> (\<exists>f g x r. 800000 < x * 12 \<and> calculate_tax_impact f g x = Inr r \<and>
           monthly_relief (impact r) \<noteq> round2 (annual_relief (impact r) / 12))"
proof (intro conjI impI)
  assume "800000 < m * 12" "c24 (m * 12) = Inr cur" "c26 (m * 12) = Inr prop"
  then show "\<exists>r. calculate_tax_impact c24 c26 m = Inr r \<and>
           monthly_relief (impact r) = round2 ((annual_tax cur - annual_tax prop) / 12) \<and>
           annual_relief (impact r) = round2 (annual_tax cur - annual_tax prop)"
    by (simp add: taxable_result)
next
  let ?cur = "\<lparr>gross_income = 6000000, taxable_income = 4600000,
          consolidated_relief = 1400000, annual_tax = 896000,
          monthly_tax = 896000 / 12, effective_rate = 896000 / 6000000\<rparr>"
  let ?reform = "\<lparr>gross_income = 6000000, taxable_income = 6000000,
          consolidated_relief = 0, annual_tax = 870000,
          monthly_tax = 870000 / 12, effective_rate = 870000 / 6000000\<rparr>"
  let ?r = "\<lparr>monthly_income = 500000, annual_income = 500000 * 12,
             current = with_label ''2024 PITA'' ?cur,
             proposed = with_label ''2026 Reform'' ?reform,
             impact = \<lparr>monthly_relief = round2 ((annual_tax ?cur - annual_tax ?reform) / 12),
                       annual_relief = round2 (annual_tax ?cur - annual_tax ?reform),
                       percentage_change =
                         round2 (if annual_tax ?cur > 0
                                 then (annual_tax ?cur - annual_tax ?reform) / annual_tax ?cur * 100
                                 else 0)\<rparr>\<rparr>"
  have "(800000 :: real) < 500000 * 12"
    "sample_pita_2024 (500000 * 12) = Inr ?cur" "sample_pita_2026 (500000 * 12) = Inr ?reform"
    using sample_2024_at_6000000 sample_2026_at_6000000 by simp_all
  then have c: "calculate_tax_impact sample_pita_2024 sample_pita_2026 500000 = Inr ?r"
    by (rule taxable_result)
  have v: "round2 (26000 / 12) = 216667 / 100" "round2 26000 = 26000"
    by (simp_all add: round2_def round_half_even_def)
  have "12 * monthly_relief (impact ?r) \<noteq> annual_relief (impact ?r)"
    using v by simp
  with c show "\<exists>f g x r. 800000 < x * 12 \<and> calculate_tax_impact f g x = Inr r \<and>
           12 * monthly_relief (impact r) \<noteq> annual_relief (impact r)"
    by (intro exI [of _ sample_pita_2024] exI [of _ sample_pita_2026]
        exI [of _ 500000] exI [of _ ?r]) simp
next
  let ?f = "\<lambda>a. Inr ((zero_tax_result a)\<lparr>annual_tax := 176 / 1000\<rparr>)"
  let ?cur = "(zero_tax_result (100000 * 12))\<lparr>annual_tax := 176 / 1000\<rparr>"
  let ?reform = "zero_tax_result (100000 * 12)"
  let ?r = "\<lparr>monthly_income = 100000, annual_income = 100000 * 12,
             current = with_label ''2024 PITA'' ?cur,
             proposed = with_label ''2026 Reform'' ?reform,
             impact = \<lparr>monthly_relief = round2 ((annual_tax ?cur - annual_tax ?reform) / 12),
                       annual_relief = round2 (annual_tax ?cur - annual_tax ?reform),
                       percentage_change =
                         round2 (if annual_tax ?cur > 0
                                 then (annual_tax ?cur - annual_tax ?reform) / annual_tax ?cur * 100
                                 else 0)\<rparr>\<rparr>"
  have "(800000 :: real) < 100000 * 12" "?f (100000 * 12) = Inr ?cur"
    "zero_pita (100000 * 12) = Inr ?reform"
    by (simp_all add: zero_pita_def)
  then have c: "calculate_tax_impact ?f zero_pita 100000 = Inr ?r"
    by (rule taxable_result)
  have "monthly_relief (impact ?r) \<noteq> round2 (annual_relief (impact ?r) / 12)"
    by (simp add: zero_tax_result_def round2_def round_half_even_def)
  with c show "\<exists>f g x r. 800000 < x * 12 \<and> calculate_tax_impact f g x = Inr r \<and>
           monthly_relief (impact r) \<noteq> round2 (annual_relief (impact r) / 12)"
    by (intro exI [of _ ?f] exI [of _ zero_pita] exI [of _ 100000] exI [of _ ?r]) simp
qed

theorem monthly_relief_from_unrounded_difference_witness:
  "(800000 :: real) < 500000 * 12 \<and>
   (\<exists>r. calculate_tax_impact sample_pita_2024 sample_pita_2026 500000 = Inr r \<and>
        monthly_relief (impact r) = round2 (26000 / 12) \<and>
        monthly_relief (impact r) = 216667 / 100 \<and>
        annual_relief (impact r) = 26000 \<and>
        12 * monthly_relief (impact r) = 2600004 / 100)"
proof -
  let ?cur = "\<lparr>gross_income = 6000000, taxable_income = 4600000,
          consolidated_relief = 1400000, annual_tax = 896000,
          monthly_tax = 896000 / 12, effective_rate = 896000 / 6000000\<rparr>"
  let ?reform = "\<lparr>gross_income = 6000000, taxable_income = 6000000,
          consolidated_relief = 0, annual_tax = 870000,
          monthly_tax = 870000 / 12, effective_rate = 870000 / 6000000\<rparr>"
  have v: "round2 (26000 / 12) = 216667 / 100" "round2 26000 = 26000"
    by (simp_all add: round2_def round_half_even_def)
  have e: "round2 ((annual_tax ?cur - annual_tax ?reform) / 12) = round2 (26000 / 12)"
    "round2 (annual_tax ?cur - annual_tax ?reform) = 26000"
    using v by simp_all
  have "(800000 :: real) < 500000 * 12"
    "sample_pita_2024 (500000 * 12) = Inr ?cur" "sample_pita_2026 (500000 * 12) = Inr ?reform"
    using sample_2024_at_6000000 sample_2026_at_6000000 by simp_all
  from monthly_relief_from_unrounded_difference
    [of 500000 sample_pita_2024 ?cur sample_pita_2026 ?reform, THEN conjunct1, rule_format,
      OF this, unfolded e]
  obtain r where
    "calculate_tax_impact sample_pita_2024 sample_pita_2026 500000 = Inr r"
    "monthly_relief (impact r) = round2 (26000 / 12)"
    "annual_relief (impact r) = 26000"
    by blast
  then have "\<exists>r. calculate_tax_impact sample_pita_2024 sample_pita_2026 500000 = Inr r \<and>
        monthly_relief (impact r) = round2 (26000 / 12) \<and>
        monthly_relief (impact r) = 216667 / 100 \<and>
        annual_relief (impact r) = 26000 \<and>
        12 * monthly_relief (impact r) = 2600004 / 100"
    using v by (intro exI [of _ r]) simp
  then show ?thesis by simp
qed

section \<open>Claims about the regime calculator\<close>

text \<open>
  A band of a well-formed table has a rate that is not negative and an upper bound, if
  any, above its lower bound; so its tax is never negative and grows with the taxable
  income.
\<close>

lemma band_tax_nonneg:
  assumes "0 \<le> rate b"
    and "case upper_bound b of None \<Rightarrow> True | Some u \<Rightarrow> lower_bound b < u"
  shows "0 \<le> band_tax t b"
  using assms by (auto simp: band_tax_def split: option.splits)

lemma band_tax_mono:
  assumes "0 \<le> rate b"
    and "case upper_bound b of None \<Rightarrow> True | Some u \<Rightarrow> lower_bound b < u"
    and "t1 \<le> t2"
  shows "band_tax t1 b \<le> band_tax t2 b"
proof (cases "lower_bound b < t1")
  case False
  then have "band_tax t1 b = 0"
    by (simp add: band_tax_def)
  with band_tax_nonneg [OF assms(1,2)] show ?thesis
    by simp
next
  case True
  with assms(3) have "lower_bound b < t2"
    by simp
  with True assms show ?thesis
    by (auto simp: band_tax_def intro!: mult_right_mono split: option.splits)
qed

lemma bands_from_head:
  "bands_from lo (b # bs) \<Longrightarrow>
   0 \<le> rate b \<and> (case upper_bound b of None \<Rightarrow> True | Some u \<Rightarrow> lower_bound b < u)"
  by (auto split: option.splits)

lemma bands_from_tail:
  "bands_from lo (b # bs) \<Longrightarrow> bs \<noteq> [] \<Longrightarrow> \<exists>u. bands_from u bs"
  by (auto split: option.splits)

lemma bracket_walk_nonneg: "bands_from lo bs \<Longrightarrow> 0 \<le> bracket_walk bs t"
proof (induction bs arbitrary: lo)
  case Nil
  then show ?case by simp
next
  case (Cons b bs)
  have h: "0 \<le> band_tax t b"
    using bands_from_head [OF Cons.prems] by (intro band_tax_nonneg) simp_all
  show ?case
  proof (cases "bs = []")
    case True
    with h show ?thesis by simp
  next
    case False
    with bands_from_tail [OF Cons.prems] obtain u where "bands_from u bs"
      by blast
    from Cons.IH [OF this] h show ?thesis by simp
  qed
qed

lemma bracket_walk_mono:
  "bands_from lo bs \<Longrightarrow> t1 \<le> t2 \<Longrightarrow> bracket_walk bs t1 \<le> bracket_walk bs t2"
proof (induction bs arbitrary: lo)
  case Nil
  then show ?case by simp
next
  case (Cons b bs)
  have h: "band_tax t1 b \<le> band_tax t2 b"
    using bands_from_head [OF Cons.prems(1)] Cons.prems(2) by (intro band_tax_mono) simp_all
  show ?case
  proof (cases "bs = []")
    case True
    with h show ?thesis by simp
  next
    case False
    with bands_from_tail [OF Cons.prems(1)] obtain u where "bands_from u bs"
      by blast
    from Cons.IH [OF this Cons.prems(2)] h show ?thesis by simp
  qed
qed

lemma relief_amount_nonneg:
  assumes "relief_rule_ok rr" and "0 \<le> g"
  shows "0 \<le> relief_amount rr g"
proof -
  have "0 \<le> flat_rate rr * g"
    using assms by (simp add: relief_rule_ok_def)
  moreover have "0 \<le> max (floor_amount rr) (floor_rate rr * g)"
    using assms by (simp add: relief_rule_ok_def max_def)
  ultimately show ?thesis
    by (simp add: relief_amount_def)
qed

lemma taxable_mono:
  assumes ok: "relief_rule_ok rr" and g1: "0 \<le> g1" and le: "g1 \<le> g2"
  shows "max 0 (g1 - relief_amount rr g1) \<le> max 0 (g2 - relief_amount rr g2)"
proof (cases "0 < g1 - relief_amount rr g1")
  case False
  then show ?thesis by simp
next
  case True
  let ?F = "floor_amount rr" and ?p = "floor_rate rr" and ?q = "flat_rate rr"
  from ok have nn: "0 \<le> ?F" "0 \<le> ?p" "0 \<le> ?q"
    by (simp_all add: relief_rule_ok_def)
  from True have pos: "?p * g1 + ?q * g1 < g1"
    by (simp add: relief_amount_def max_def split: if_splits)
  have small: "?p + ?q < 1"
  proof (rule ccontr)
    assume "\<not> ?p + ?q < 1"
    then have "1 * g1 \<le> (?p + ?q) * g1"
      using g1 by (intro mult_right_mono) simp_all
    with pos show False
      by (simp add: algebra_simps)
  qed
  have "(?p + ?q) * (g2 - g1) \<le> 1 * (g2 - g1)"
    using small le by (intro mult_right_mono) simp_all
  then have step: "?p * g2 + ?q * g2 - (?p * g1 + ?q * g1) \<le> g2 - g1"
    by (simp add: algebra_simps)
  have pm: "?p * g1 \<le> ?p * g2"
    using nn le by (intro mult_left_mono) simp_all
  have qm: "?q * g1 \<le> ?q * g2"
    using nn le by (intro mult_left_mono) simp_all
  have "max ?F (?p * g2) \<le> max ?F (?p * g1) + (?p * g2 - ?p * g1)"
    using pm by (simp add: max_def)
  with step have "relief_amount rr g2 - relief_amount rr g1 \<le> g2 - g1"
    by (simp add: relief_amount_def)
  then show ?thesis
    by simp
qed

lemma relief_rule_2024_ok: "relief_rule_ok relief_rule_2024"
  by (simp add: relief_rule_ok_def relief_rule_2024_def)

lemma compute_returns:
  assumes "table_ok (brackets R)" and "0 \<le> g"
  shows "compute R g =
           Inr \<lparr>gross_income = g,
                taxable_income = max 0 (g - relief_amount (relief_rule R) g),
                consolidated_relief = relief_amount (relief_rule R) g,
                annual_tax =
                  bracket_walk (brackets R) (max 0 (g - relief_amount (relief_rule R) g)),
                monthly_tax =
                  bracket_walk (brackets R) (max 0 (g - relief_amount (relief_rule R) g)) / 12,
                effective_rate =
                  (if g > 0
                   then bracket_walk (brackets R)
                          (max 0 (g - relief_amount (relief_rule R) g)) / g
                   else 0)\<rparr>"
  using assms by (simp add: compute_def Let_def)

text \<open>
  C7. For a regime with a well-formed bracket table and a relief rule whose constants are
  not negative (the 2024 rule is one), the calculator returns for every gross income from
  0 up, its annual tax does not decrease when the gross income grows, and every field of
  its result is at least 0.
\<close>

theorem regime_calculator_monotone_nonneg:
  assumes "table_ok (brackets R)"
    and "relief_rule_ok (relief_rule R)"
    and "0 \<le> g1"
    and "g1 \<le> g2"
  shows "\<exists>r1 r2. compute R g1 = Inr r1 \<and> compute R g2 = Inr r2 \<and>
           annual_tax r1 \<le> annual_tax r2 \<and>
           0 \<le> gross_income r1 \<and> 0 \<le> taxable_income r1 \<and>
           0 \<le> consolidated_relief r1 \<and> 0 \<le> annual_tax r1 \<and>
           0 \<le> monthly_tax r1 \<and> 0 \<le> effective_rate r1"
proof -
  let ?t1 = "max 0 (g1 - relief_amount (relief_rule R) g1)"
  let ?t2 = "max 0 (g2 - relief_amount (relief_rule R) g2)"
  from assms have g2: "0 \<le> g2"
    by simp
  have bf: "bands_from 0 (brackets R)"
    using assms(1) by (simp add: table_ok_def)
  have t: "?t1 \<le> ?t2"
    using assms(2,3,4) by (rule taxable_mono)
  have mono: "bracket_walk (brackets R) ?t1 \<le> bracket_walk (brackets R) ?t2"
    using bf t by (rule bracket_walk_mono)
  have tax: "0 \<le> bracket_walk (brackets R) ?t1"
    using bf by (rule bracket_walk_nonneg)
  have rel: "0 \<le> relief_amount (relief_rule R) g1"
    using assms(2,3) by (rule relief_amount_nonneg)
  show ?thesis
    using mono tax rel assms(3)
    by (simp add: compute_returns [OF assms(1,3)] compute_returns [OF assms(1) g2])
qed

theorem regime_calculator_monotone_nonneg_witness:
  "(table_ok (brackets sample_regime_2024) \<and>
    relief_rule_ok (relief_rule sample_regime_2024) \<and>
    (0 :: real) \<le> 1200000 \<and> (1200000 :: real) \<le> 6000000 \<and>
    (\<exists>r1 r2. compute sample_regime_2024 1200000 = Inr r1 \<and>
             compute sample_regime_2024 6000000 = Inr r2 \<and>
             annual_tax r1 = 78000 \<and> annual_tax r2 = 896000 \<and>
             annual_tax r1 \<le> annual_tax r2 \<and> 0 \<le> effective_rate r1))
   \<and> (table_ok (brackets sample_regime_2026) \<and>
    relief_rule_ok (relief_rule sample_regime_2026) \<and>
    (\<exists>r1 r2. compute sample_regime_2026 1200000 = Inr r1 \<and>
             compute sample_regime_2026 6000000 = Inr r2 \<and>
             annual_tax r1 = 60000 \<and> annual_tax r2 = 870000 \<and>
             annual_tax r1 \<le> annual_tax r2 \<and> 0 \<le> effective_rate r1))"
proof -
  have t24: "table_ok (brackets sample_regime_2024)"
    by (simp add: table_ok_def sample_regime_2024_def)
  have r24: "relief_rule_ok (relief_rule sample_regime_2024)"
    by (simp add: sample_regime_2024_def relief_rule_2024_ok)
  have t26: "table_ok (brackets sample_regime_2026)"
    by (simp add: table_ok_def sample_regime_2026_def)
  have r26: "relief_rule_ok (relief_rule sample_regime_2026)"
    by (simp add: sample_regime_2026_def relief_rule_ok_def)
  have b: "(0 :: real) \<le> 1200000" "(1200000 :: real) \<le> 6000000"
    by simp_all
  from regime_calculator_monotone_nonneg [OF t24 r24 b]
  have a24: "\<exists>r1 r2. compute sample_regime_2024 1200000 = Inr r1 \<and>
             compute sample_regime_2024 6000000 = Inr r2 \<and>
             annual_tax r1 = 78000 \<and> annual_tax r2 = 896000 \<and>
             annual_tax r1 \<le> annual_tax r2 \<and> 0 \<le> effective_rate r1"
    using sample_2024_at_1200000 sample_2024_at_6000000
    by (auto simp: sample_pita_2024_def)
  from regime_calculator_monotone_nonneg [OF t26 r26 b]
  have a26: "\<exists>r1 r2. compute sample_regime_2026 1200000 = Inr r1 \<and>
             compute sample_regime_2026 6000000 = Inr r2 \<and>
             annual_tax r1 = 60000 \<and> annual_tax r2 = 870000 \<and>
             annual_tax r1 \<le> annual_tax r2 \<and> 0 \<le> effective_rate r1"
    using sample_2026_at_1200000 sample_2026_at_6000000
    by (auto simp: sample_pita_2026_def)
  from t24 r24 t26 r26 b a24 a26 show ?thesis
    by blast
qed

end
